theory Spec2Isabelle
  imports Main
begin

section \<open>Data model\<close>

text \<open>
  The view layer of \<^verbatim>\<open>allo_aide\<close> (\<^verbatim>\<open>views.py\<close>) works on four tables through
  the object-relational layer.  A table is the list of its rows; a foreign key holds
  the primary key of the row it refers to.  \<^verbatim>\<open>request.user\<close> is either a stored
  user or the anonymous user.
\<close>

type_synonym user_id = nat

datatype principal = AnonymousUser | User user_id

record date =
  year :: nat
  month :: nat
  day :: nat

record Skill =
  skill_id :: nat
  skill_user :: user_id
  skill_name :: string

record HelpRequest =
  help_request_id :: nat
  help_request_user :: "user_id option"
  help_request_description :: string

record TimeSlot =
  slot_id :: nat
  slot_user :: user_id
  slot_skill :: nat
  slot_date :: date
  is_available :: bool

record Reservation =
  reservation_id :: nat
  time_slot :: nat
  reservation_user :: user_id

text \<open>
  The stored state: the four tables, the credential store of the authentication
  subsystem, and the sessions (session key to logged-in user).
\<close>

record state =
  skills :: "Skill list"
  help_requests :: "HelpRequest list"
  time_slots :: "TimeSlot list"
  reservations :: "Reservation list"
  accounts :: "((string \<times> string) \<times> user_id) list"
  sessions :: "nat \<Rightarrow> user_id option"

text \<open>
  A request: its method (a string, compared with \<^verbatim>\<open>"POST"\<close>), the submitted form
  data (a list of key/value pairs) and the session cookie.
\<close>

type_synonym querydict = "(string \<times> string) list"

record request =
  req_method :: string
  POST :: querydict
  session_key :: nat

text \<open>
  What a handler returns.  A rendered page is its template name and its context, a
  dictionary from names to values.  \<open>RedirectToLogin\<close> is the redirect issued by
  \<^verbatim>\<open>login_required\<close>, \<open>Http404\<close> the not-found response raised by
  \<^verbatim>\<open>get_object_or_404\<close>, and \<open>ServerError\<close> an exception that no handler catches.
\<close>

datatype context_value =
    NoneV
  | StrV string
  | DateV date
  | SkillV Skill
  | SkillList "Skill list"
  | HelpRequestList "HelpRequest list"
  | TimeSlotList "TimeSlot list"
  | ReservationList "(Reservation \<times> TimeSlot \<times> Skill) list"
  | FormV "querydict option"

datatype response =
    Render string "(string \<times> context_value) list"
  | Redirect string
  | RedirectToLogin
  | Http404
  | ServerError

text \<open>
  \<^verbatim>\<open>forms.py\<close> is not part of the sources at hand, so the four forms are parameters
  of the handlers.  A form maps the submitted data to \<open>None\<close> when
  \<^verbatim>\<open>is_valid()\<close> is false, and otherwise to the cleaned data: the credential pair
  for the login form, the unsaved model instance for a model form (its primary key
  is assigned when the instance is saved).
\<close>

record forms =
  AuthenticationForm :: "querydict \<Rightarrow> (string \<times> string) option"
  SkillForm :: "querydict \<Rightarrow> Skill option"
  HelpRequestForm :: "querydict \<Rightarrow> HelpRequest option"
  TimeSlotForm :: "querydict \<Rightarrow> TimeSlot option"

section \<open>The object-relational layer and the session\<close>

text \<open>A new row gets a primary key above every key of its table.\<close>

definition fresh_id :: "nat list \<Rightarrow> nat" where
  "fresh_id ks = Suc (fold max ks 0)"

definition save_new_skill :: "Skill \<Rightarrow> state \<Rightarrow> state" where
  "save_new_skill x s =
     s\<lparr>skills := skills s @ [x\<lparr>skill_id := fresh_id (map skill_id (skills s))\<rparr>]\<rparr>"

definition save_new_help_request :: "HelpRequest \<Rightarrow> state \<Rightarrow> state" where
  "save_new_help_request x s =
     s\<lparr>help_requests := help_requests s @
        [x\<lparr>help_request_id := fresh_id (map help_request_id (help_requests s))\<rparr>]\<rparr>"

definition save_new_time_slot :: "TimeSlot \<Rightarrow> state \<Rightarrow> state" where
  "save_new_time_slot x s =
     s\<lparr>time_slots := time_slots s @ [x\<lparr>slot_id := fresh_id (map slot_id (time_slots s))\<rparr>]\<rparr>"

definition save_new_reservation :: "Reservation \<Rightarrow> state \<Rightarrow> state" where
  "save_new_reservation x s =
     s\<lparr>reservations := reservations s @
        [x\<lparr>reservation_id := fresh_id (map reservation_id (reservations s))\<rparr>]\<rparr>"

text \<open>Saving a row that is already stored rewrites the row with its primary key.\<close>

definition save_time_slot :: "TimeSlot \<Rightarrow> state \<Rightarrow> state" where
  "save_time_slot x s =
     s\<lparr>time_slots := map (\<lambda>t. if slot_id t = slot_id x then x else t) (time_slots s)\<rparr>"

text \<open>\<^verbatim>\<open>get_object_or_404(Model, id=k)\<close>: the row, or \<open>None\<close> for the not-found response.\<close>

definition get_skill_or_404 :: "state \<Rightarrow> nat \<Rightarrow> Skill option" where
  "get_skill_or_404 s k = find (\<lambda>x. skill_id x = k) (skills s)"

definition get_time_slot_or_404 :: "state \<Rightarrow> nat \<Rightarrow> TimeSlot option" where
  "get_time_slot_or_404 s k = find (\<lambda>t. slot_id t = k) (time_slots s)"

text \<open>
  \<^verbatim>\<open>select_related('time_slot', 'time_slot__skill')\<close>: each reservation joined with
  its slot and the slot's skill.
\<close>

definition select_related :: "state \<Rightarrow> Reservation list \<Rightarrow> (Reservation \<times> TimeSlot \<times> Skill) list" where
  "select_related s rs =
     List.map_filter
       (\<lambda>r. case get_time_slot_or_404 s (time_slot r) of
              None \<Rightarrow> None
            | Some t \<Rightarrow> (case get_skill_or_404 s (slot_skill t) of
                          None \<Rightarrow> None
                        | Some k \<Rightarrow> Some (r, t, k))) rs"

definition request_user :: "state \<Rightarrow> request \<Rightarrow> principal" where
  "request_user s request =
     (case sessions s (session_key request) of None \<Rightarrow> AnonymousUser | Some u \<Rightarrow> User u)"

definition authenticate :: "state \<Rightarrow> string \<Rightarrow> string \<Rightarrow> user_id option" where
  "authenticate s username password = map_of (accounts s) (username, password)"

definition login :: "request \<Rightarrow> user_id \<Rightarrow> state \<Rightarrow> state" where
  "login request u s = s\<lparr>sessions := (sessions s)(session_key request := Some u)\<rparr>"

definition logout :: "request \<Rightarrow> state \<Rightarrow> state" where
  "logout request s = s\<lparr>sessions := (sessions s)(session_key request := None)\<rparr>"

definition login_required ::
  "(request \<Rightarrow> state \<Rightarrow> response \<times> state) \<Rightarrow> request \<Rightarrow> state \<Rightarrow> response \<times> state" where
  "login_required view request s =
     (case request_user s request of
        AnonymousUser \<Rightarrow> (RedirectToLogin, s)
      | User u \<Rightarrow> view request s)"

section \<open>Parsing a date with the format \<^verbatim>\<open>%Y-%m-%d\<close>\<close>

text \<open>
  \<^verbatim>\<open>datetime.datetime.strptime(date, '%Y-%m-%d')\<close> matches the string against
  \<^verbatim>\<open>(\d\d\d\d)-(1[0-2]|0[1-9]|[1-9])-(3[0-1]|[1-2]\d|0[1-9]|[1-9]| [1-9])\<close>,
  taking the first alternative that lets the match go on, raises \<^verbatim>\<open>ValueError\<close>
  when nothing matches or when characters remain after the match, and then builds
  the date, which raises \<^verbatim>\<open>ValueError\<close> for a year, month or day out of range.
  \<open>None\<close> stands for \<^verbatim>\<open>ValueError\<close>.  A string is the list of its code points,
  each below 256; among these only \<^verbatim>\<open>0\<close> to \<^verbatim>\<open>9\<close> are matched by \<^verbatim>\<open>\d\<close>.
\<close>

definition is_digit :: "char \<Rightarrow> bool" where
  "is_digit c = (c \<in> set ''0123456789'')"

definition digit_val :: "char \<Rightarrow> nat" where
  "digit_val c = of_char c - 48"

definition in_range :: "char \<Rightarrow> char \<Rightarrow> char \<Rightarrow> bool" where
  "in_range lo hi c = (is_digit c \<and> digit_val lo \<le> digit_val c \<and> digit_val c \<le> digit_val hi)"

text \<open>Every way a group matches a prefix of the input, in the order of its alternatives.\<close>

fun match_Y :: "string \<Rightarrow> (nat \<times> string) list" where
  "match_Y (a # b # c # d # rest) =
     (if is_digit a \<and> is_digit b \<and> is_digit c \<and> is_digit d
      then [(1000 * digit_val a + 100 * digit_val b + 10 * digit_val c + digit_val d, rest)]
      else [])"
| "match_Y _ = []"

definition two_chars :: "(char \<Rightarrow> bool) \<Rightarrow> (char \<Rightarrow> bool) \<Rightarrow> string \<Rightarrow> (nat \<times> string) list" where
  "two_chars p q s =
     (case s of
        a # b # rest \<Rightarrow> (if p a \<and> q b then [(10 * digit_val a + digit_val b, rest)] else [])
      | _ \<Rightarrow> [])"

definition one_char :: "(char \<Rightarrow> bool) \<Rightarrow> string \<Rightarrow> (nat \<times> string) list" where
  "one_char p s = (case s of a # rest \<Rightarrow> (if p a then [(digit_val a, rest)] else []) | _ \<Rightarrow> [])"

definition space_digit :: "string \<Rightarrow> (nat \<times> string) list" where
  "space_digit s =
     (case s of
        a # b # rest \<Rightarrow>
          (if a = CHR '' '' \<and> in_range CHR ''1'' CHR ''9'' b then [(digit_val b, rest)] else [])
      | _ \<Rightarrow> [])"

definition match_m :: "string \<Rightarrow> (nat \<times> string) list" where
  "match_m s =
     two_chars (\<lambda>c. c = CHR ''1'') (in_range CHR ''0'' CHR ''2'') s @
     two_chars (\<lambda>c. c = CHR ''0'') (in_range CHR ''1'' CHR ''9'') s @
     one_char (in_range CHR ''1'' CHR ''9'') s"

definition match_d :: "string \<Rightarrow> (nat \<times> string) list" where
  "match_d s =
     two_chars (\<lambda>c. c = CHR ''3'') (in_range CHR ''0'' CHR ''1'') s @
     two_chars (in_range CHR ''1'' CHR ''2'') is_digit s @
     two_chars (\<lambda>c. c = CHR ''0'') (in_range CHR ''1'' CHR ''9'') s @
     one_char (in_range CHR ''1'' CHR ''9'') s @
     space_digit s"

definition match_dash :: "string \<Rightarrow> string list" where
  "match_dash s = (case s of a # rest \<Rightarrow> (if a = CHR ''-'' then [rest] else []) | _ \<Rightarrow> [])"

text \<open>All matches of the whole pattern, in the order a backtracking matcher tries them.\<close>

definition match_Ymd :: "string \<Rightarrow> ((nat \<times> nat \<times> nat) \<times> string) list" where
  "match_Ymd s =
     concat (map (\<lambda>(y, r1).
       concat (map (\<lambda>r2.
         concat (map (\<lambda>(m, r3).
           concat (map (\<lambda>r4.
             map (\<lambda>(d, r5). ((y, m, d), r5)) (match_d r4))
           (match_dash r3)))
         (match_m r2)))
       (match_dash r1)))
     (match_Y s))"

definition is_leap :: "nat \<Rightarrow> bool" where
  "is_leap y = (y mod 4 = 0 \<and> (y mod 100 \<noteq> 0 \<or> y mod 400 = 0))"

definition days_in_month :: "nat \<Rightarrow> nat \<Rightarrow> nat" where
  "days_in_month y m =
     (if m = 2 then (if is_leap y then 29 else 28)
      else if m \<in> {4, 6, 9, 11} then 30 else 31)"

definition make_date :: "nat \<Rightarrow> nat \<Rightarrow> nat \<Rightarrow> date option" where
  "make_date y m d =
     (if 1 \<le> y \<and> y \<le> 9999 \<and> 1 \<le> m \<and> m \<le> 12 \<and> 1 \<le> d \<and> d \<le> days_in_month y m
      then Some \<lparr>year = y, month = m, day = d\<rparr> else None)"

definition strptime_Ymd :: "string \<Rightarrow> date option" where
  "strptime_Ymd s =
     (case match_Ymd s of
        [] \<Rightarrow> None
      | ((y, m, d), rest) # _ \<Rightarrow> (if rest = [] then make_date y m d else None))"






section \<open>The ten handlers\<close>

text \<open>
  Each handler takes the request and the stored state and returns its response and
  the state it leaves.  The handlers follow \<^verbatim>\<open>views.py\<close> branch by branch.
\<close>

definition home :: "request \<Rightarrow> state \<Rightarrow> response \<times> state" where
  "home request s =
     (let skills' = skills s;
          timeslots = filter (\<lambda>t. is_available t = True) (time_slots s)
      in (Render ''allo_aide/home.html''
            [(''skills'', SkillList skills'), (''timeslots'', TimeSlotList timeslots)], s))"

text \<open>
  \<^verbatim>\<open>home_user\<close> has no \<^verbatim>\<open>login_required\<close>; filtering on the anonymous user raises,
  which no code catches.
\<close>

definition home_user :: "request \<Rightarrow> state \<Rightarrow> response \<times> state" where
  "home_user request s =
     (case request_user s request of
        AnonymousUser \<Rightarrow> (ServerError, s)
      | User user \<Rightarrow>
          (let skills' = filter (\<lambda>x. skill_user x = user) (skills s);
               help_requests' = filter (\<lambda>x. help_request_user x = Some user) (help_requests s);
               time_slots' = filter (\<lambda>x. slot_user x = user) (time_slots s)
           in (Render ''allo_aide/home_user.html''
                 [(''skills'', SkillList skills'),
                  (''help_requests'', HelpRequestList help_requests'),
                  (''time_slots'', TimeSlotList time_slots')], s)))"

definition login_view :: "forms \<Rightarrow> request \<Rightarrow> state \<Rightarrow> response \<times> state" where
  "login_view F request s =
     (if req_method request = ''POST'' then
        (case AuthenticationForm F (POST request) of
           Some (username, password) \<Rightarrow>
             (case authenticate s username password of
                Some user \<Rightarrow> (Redirect ''allo_aide:home_user'', login request user s)
              | None \<Rightarrow>
                  (Render ''allo_aide/login.html'' [(''form'', FormV (Some (POST request)))], s))
         | None \<Rightarrow>
             (Render ''allo_aide/login.html'' [(''form'', FormV (Some (POST request)))], s))
      else (Render ''allo_aide/login.html'' [(''form'', FormV None)], s))"

definition logout_view :: "request \<Rightarrow> state \<Rightarrow> response \<times> state" where
  "logout_view request s = (Redirect ''allo_aide:home'', logout request s)"

text \<open>
  In \<^verbatim>\<open>create_new_skill\<close> the assignment \<^verbatim>\<open>new_skill.user = request.user\<close> raises
  for the anonymous user, which is not a stored user.
\<close>

definition create_new_skill :: "forms \<Rightarrow> request \<Rightarrow> state \<Rightarrow> response \<times> state" where
  "create_new_skill F request s =
     (if req_method request = ''POST'' then
        (case SkillForm F (POST request) of
           Some new_skill \<Rightarrow>
             (case request_user s request of
                AnonymousUser \<Rightarrow> (ServerError, s)
              | User u \<Rightarrow>
                  (Redirect ''allo_aide:home_user'',
                   save_new_skill (new_skill\<lparr>skill_user := u\<rparr>) s))
         | None \<Rightarrow>
             (Render ''allo_aide/create_new_skill.html''
                [(''form'', FormV (Some (POST request)))], s))
      else (Render ''allo_aide/create_new_skill.html'' [(''form'', FormV None)], s))"

definition create_new_request :: "forms \<Rightarrow> request \<Rightarrow> state \<Rightarrow> response \<times> state" where
  "create_new_request F request s =
     (if req_method request = ''POST'' then
        (case HelpRequestForm F (POST request) of
           Some x \<Rightarrow> (Redirect ''allo_aide:home_user'', save_new_help_request x s)
         | None \<Rightarrow>
             (Render ''allo_aide/create_new_demande.html''
                [(''form'', FormV (Some (POST request)))], s))
      else (Render ''allo_aide/create_new_demande.html'' [(''form'', FormV None)], s))"

definition create_new_proposition :: "forms \<Rightarrow> request \<Rightarrow> state \<Rightarrow> response \<times> state" where
  "create_new_proposition F request s =
     (if req_method request = ''POST'' then
        (case TimeSlotForm F (POST request) of
           Some x \<Rightarrow> (Redirect ''allo_aide:home_user'', save_new_time_slot x s)
         | None \<Rightarrow>
             (Render ''allo_aide/create_new_proposition.html''
                [(''form'', FormV (Some (POST request)))], s))
      else (Render ''allo_aide/create_new_proposition.html'' [(''form'', FormV None)], s))"

definition invalid_date_message :: string where
  "invalid_date_message = ''Invalid date format. Please enter a date in YYYY-MM-DD format.''"

definition find_slots :: "request \<Rightarrow> nat \<Rightarrow> string \<Rightarrow> state \<Rightarrow> response \<times> state" where
  "find_slots request skill_id' date' s =
     (case get_skill_or_404 s skill_id' of
        None \<Rightarrow> (Http404, s)
      | Some skill \<Rightarrow>
          (let (error_message, date_obj) =
                 (case strptime_Ymd date' of
                    Some d \<Rightarrow> (NoneV, Some d)
                  | None \<Rightarrow> (StrV invalid_date_message, None));
               available_slots =
                 (case date_obj of
                    Some d \<Rightarrow>
                      filter (\<lambda>t. slot_skill t = skill_id skill \<and> slot_date t = d \<and>
                                   is_available t = True) (time_slots s)
                  | None \<Rightarrow> [])
           in (Render ''allo_aide/find_slots.html''
                 [(''available_slots'', TimeSlotList available_slots),
                  (''skill'', SkillV skill),
                  (''date'', case date_obj of Some d \<Rightarrow> DateV d | None \<Rightarrow> NoneV),
                  (''error_message'', error_message)], s)))"

text \<open>
  The message of the error page, \<^verbatim>\<open>'Ce cr\'eneau est d\'ej\`a r\'eserv\'e.'\<close>
  with its accents: one character for each code point of the source's string
  (\<open>0xE9\<close> is e with acute accent, \<open>0xE0\<close> is a with grave accent).
\<close>

definition already_reserved_message :: string where
  "already_reserved_message =
     ''Ce cr'' @ [CHR 0xE9] @ ''neau est d'' @ [CHR 0xE9] @ ''j'' @ [CHR 0xE0] @
     '' r'' @ [CHR 0xE9] @ ''serv'' @ [CHR 0xE9] @ ''.''"

text \<open>
  The body of \<^verbatim>\<open>reserve_slot\<close>, under its decorator.  The unsaved reservation has no
  primary key yet (written \<open>0\<close> here); saving it assigns one.
\<close>

definition reserve_slot_body :: "nat \<Rightarrow> request \<Rightarrow> state \<Rightarrow> response \<times> state" where
  "reserve_slot_body slot_id' request s =
     (case get_time_slot_or_404 s slot_id' of
        None \<Rightarrow> (Http404, s)
      | Some slot \<Rightarrow>
          (if is_available slot then
             (case request_user s request of
                AnonymousUser \<Rightarrow> (ServerError, s)
              | User u \<Rightarrow>
                  (let reservation =
                         \<lparr>reservation_id = 0, time_slot = slot_id slot, reservation_user = u\<rparr>;
                       s1 = save_new_reservation reservation s;
                       s2 = save_time_slot (slot\<lparr>is_available := False\<rparr>) s1
                   in (Redirect ''allo_aide:history'', s2)))
           else (Render ''allo_aide/error.html''
                   [(''message'', StrV already_reserved_message)], s)))"

definition reserve_slot :: "request \<Rightarrow> nat \<Rightarrow> state \<Rightarrow> response \<times> state" where
  "reserve_slot request slot_id' s = login_required (reserve_slot_body slot_id') request s"

definition history_body :: "request \<Rightarrow> state \<Rightarrow> response \<times> state" where
  "history_body request s =
     (case request_user s request of
        AnonymousUser \<Rightarrow> (ServerError, s)
      | User u \<Rightarrow>
          (let reservations' =
                 select_related s (filter (\<lambda>r. reservation_user r = u) (reservations s))
           in (Render ''allo_aide/history.html''
                 [(''reservations'', ReservationList reservations')], s)))"

definition history :: "request \<Rightarrow> state \<Rightarrow> response \<times> state" where
  "history request s = login_required history_body request s"

section \<open>Sequences of requests\<close>

text \<open>A request is routed to one of the ten handlers; a sequence of requests is run in order.\<close>

datatype call =
    Home
  | HomeUser
  | LoginView
  | LogoutView
  | CreateNewSkill
  | CreateNewRequest
  | CreateNewProposition
  | FindSlots nat string
  | ReserveSlot nat
  | History

fun handle :: "forms \<Rightarrow> call \<Rightarrow> request \<Rightarrow> state \<Rightarrow> response \<times> state" where
  "handle F Home request s = home request s"
| "handle F HomeUser request s = home_user request s"
| "handle F LoginView request s = login_view F request s"
| "handle F LogoutView request s = logout_view request s"
| "handle F CreateNewSkill request s = create_new_skill F request s"
| "handle F CreateNewRequest request s = create_new_request F request s"
| "handle F CreateNewProposition request s = create_new_proposition F request s"
| "handle F (FindSlots k d) request s = find_slots request k d s"
| "handle F (ReserveSlot k) request s = reserve_slot request k s"
| "handle F History request s = history request s"

fun run :: "forms \<Rightarrow> (call \<times> request) list \<Rightarrow> state \<Rightarrow> state" where
  "run F [] s = s"
| "run F ((c, request) # rest) s = run F rest (snd (handle F c request s))"

section \<open>Sample forms and sample data\<close>

text \<open>
  Modelled from the spec: \<^verbatim>\<open>forms.py\<close> (the classes \<^verbatim>\<open>SkillForm\<close>,
  \<^verbatim>\<open>HelpRequestForm\<close>, \<^verbatim>\<open>TimeSlotForm\<close>) is missing from the sources.  The
  specification says that the skill form validates the Skill fields without the
  owner, that the owner of a help request is optional in its form, that the form
  payload of a time slot can set the owner, and that a time slot is created with
  \<^verbatim>\<open>is_available\<close> true.  These forms are used for concrete inputs only; the
  theorems below hold for every form.
\<close>

definition parse_nat :: "string \<Rightarrow> nat option" where
  "parse_nat s =
     (if s \<noteq> [] \<and> list_all is_digit s
      then Some (fold (\<lambda>c n. 10 * n + digit_val c) s 0) else None)"

definition sample_forms :: forms where
  "sample_forms =
     \<lparr>AuthenticationForm =
        (\<lambda>q. case (map_of q ''username'', map_of q ''password'') of
                (Some a, Some b) \<Rightarrow> Some (a, b)
              | _ \<Rightarrow> None),
      SkillForm =
        (\<lambda>q. case map_of q ''name'' of
                Some n \<Rightarrow> (if n = [] then None
                           else Some \<lparr>skill_id = 0, skill_user = 0, skill_name = n\<rparr>)
              | None \<Rightarrow> None),
      HelpRequestForm =
        (\<lambda>q. case map_of q ''description'' of
                Some d \<Rightarrow>
                  Some \<lparr>help_request_id = 0,
                        help_request_user = Option.bind (map_of q ''user'') parse_nat,
                        help_request_description = d\<rparr>
              | None \<Rightarrow> None),
      TimeSlotForm =
        (\<lambda>q. case (Option.bind (map_of q ''user'') parse_nat,
                     Option.bind (map_of q ''skill'') parse_nat,
                     Option.bind (map_of q ''date'') strptime_Ymd) of
                (Some u, Some k, Some d) \<Rightarrow>
                  Some \<lparr>slot_id = 0, slot_user = u, slot_skill = k, slot_date = d,
                        is_available = True\<rparr>
              | _ \<Rightarrow> None)\<rparr>"

text \<open>
  A small database: one skill of user 1 with two slots on 5 January 2024, the first
  free, the second reserved by user 2; session 7 belongs to user 2, session 8 to
  nobody.
\<close>

definition demo_state :: state where
  "demo_state =
     \<lparr>skills = [\<lparr>skill_id = 1, skill_user = 1, skill_name = ''piano''\<rparr>],
      help_requests = [],
      time_slots =
        [\<lparr>slot_id = 1, slot_user = 1, slot_skill = 1,
          slot_date = \<lparr>year = 2024, month = 1, day = 5\<rparr>, is_available = True\<rparr>,
         \<lparr>slot_id = 2, slot_user = 1, slot_skill = 1,
          slot_date = \<lparr>year = 2024, month = 1, day = 5\<rparr>, is_available = False\<rparr>],
      reservations = [\<lparr>reservation_id = 1, time_slot = 2, reservation_user = 2\<rparr>],
      accounts = [((''alice'', ''pw1''), 1), ((''bob'', ''pw2''), 2)],
      sessions = (\<lambda>k. if k = 7 then Some 2 else None)\<rparr>"

definition demo_request :: request where
  "demo_request = \<lparr>req_method = ''GET'', POST = [], session_key = 7\<rparr>"

definition anonymous_request :: request where
  "anonymous_request = \<lparr>req_method = ''GET'', POST = [], session_key = 8\<rparr>"

section \<open>Invariants of the stored state\<close>

text \<open>The reservations that refer to a slot.\<close>

definition referencing :: "state \<Rightarrow> nat \<Rightarrow> Reservation list" where
  "referencing s k = filter (\<lambda>r. time_slot r = k) (reservations s)"

text \<open>Every slot that is not available has exactly one reservation.\<close>

definition unavailable_once :: "state \<Rightarrow> bool" where
  "unavailable_once s =
     (\<forall>t \<in> set (time_slots s). \<not> is_available t \<longrightarrow> length (referencing s (slot_id t)) = 1)"

text \<open>
  The stronger invariant that the handlers keep: a slot has no reservation while it
  is available and exactly one afterwards, and every reservation refers to a stored
  slot.
\<close>

definition reservation_inv :: "state \<Rightarrow> bool" where
  "reservation_inv s =
     ((\<forall>t \<in> set (time_slots s).
         length (referencing s (slot_id t)) = (if is_available t then 0 else 1)) \<and>
      (\<forall>r \<in> set (reservations s). \<exists>t \<in> set (time_slots s). slot_id t = time_slot r))"

text \<open>
  A step from \<open>s\<close> to \<open>s'\<close> keeps the stored reservations, and each reservation it
  adds refers to a slot that was stored and available in \<open>s\<close>.
\<close>

definition created_available :: "state \<Rightarrow> state \<Rightarrow> bool" where
  "created_available s s' =
     (take (length (reservations s)) (reservations s') = reservations s \<and>
      (\<forall>r \<in> set (drop (length (reservations s)) (reservations s')).
         \<exists>t \<in> set (time_slots s). slot_id t = time_slot r \<and> is_available t))"

text \<open>Referential integrity, as the database keeps it for the foreign keys.\<close>

definition foreign_keys_ok :: "state \<Rightarrow> bool" where
  "foreign_keys_ok s =
     ((\<forall>r \<in> set (reservations s). \<exists>t \<in> set (time_slots s). slot_id t = time_slot r) \<and>
      (\<forall>t \<in> set (time_slots s). \<exists>x \<in> set (skills s). skill_id x = slot_skill t))"

section \<open>Further sample data and hypotheses on the parameters\<close>

text \<open>
  Further sample requests: a login of user 1 on session 8, a time-slot proposal
  posted on session 7 (user 2) that names user 1 as owner, a request for the
  history page, and a short sequence of requests.
\<close>

definition alice_login :: request where
  "alice_login =
     \<lparr>req_method = ''POST'', POST = [(''username'', ''alice''), (''password'', ''pw1'')],
      session_key = 8\<rparr>"

definition proposition_request :: request where
  "proposition_request =
     \<lparr>req_method = ''POST'',
      POST = [(''user'', ''1''), (''skill'', ''1''), (''date'', ''2024-01-06'')],
      session_key = 7\<rparr>"

definition history_request :: request where
  "history_request = \<lparr>req_method = ''GET'', POST = [], session_key = 7\<rparr>"

definition demo_calls :: "(call \<times> request) list" where
  "demo_calls =
     [(Home, demo_request), (LoginView, alice_login), (CreateNewProposition, proposition_request),
      (ReserveSlot 1, alice_login)]"

text \<open>
  A state in which slot 1 is still available although a reservation refers to it.
\<close>

definition stale_state :: state where
  "stale_state =
     demo_state\<lparr>reservations :=
       [\<lparr>reservation_id = 1, time_slot = 2, reservation_user = 2\<rparr>,
        \<lparr>reservation_id = 2, time_slot = 1, reservation_user = 1\<rparr>]\<rparr>"

text \<open>No login request comes from the session \<open>key\<close>.\<close>

definition no_login_from :: "nat \<Rightarrow> (call \<times> request) list \<Rightarrow> bool" where
  "no_login_from key cs = (\<forall>(c, q) \<in> set cs. c = LoginView \<longrightarrow> session_key q \<noteq> key)"

text \<open>The time-slot form only yields slots whose \<^verbatim>\<open>is_available\<close> is true.\<close>

definition creates_available :: "forms \<Rightarrow> bool" where
  "creates_available F = (\<forall>q x. TimeSlotForm F q = Some x \<longrightarrow> is_available x)"

section \<open>Auxiliary facts\<close>

lemma fold_max_ge: "a \<le> fold max ks (a::nat)"
proof (induction ks arbitrary: a)
  case Nil
  show ?case by simp
next
  case (Cons k ks)
  have "max k a \<le> fold max ks (max k a)" by (rule Cons.IH)
  then show ?case by simp
qed

lemma fold_max_mem: "k \<in> set ks \<Longrightarrow> k \<le> fold max ks (a::nat)"
proof (induction ks arbitrary: a)
  case Nil
  then show ?case by simp
next
  case (Cons x ks)
  show ?case
  proof (cases "k = x")
    case True
    have "max x a \<le> fold max ks (max x a)" by (rule fold_max_ge)
    with True show ?thesis by simp
  next
    case False
    with Cons.prems have "k \<in> set ks" by simp
    then show ?thesis using Cons.IH by simp
  qed
qed

lemma fresh_id_notin: "fresh_id ks \<notin> set ks"
proof
  assume "fresh_id ks \<in> set ks"
  then have "fresh_id ks \<le> fold max ks 0" by (rule fold_max_mem)
  then show False by (simp add: fresh_id_def)
qed

lemma find_slot_id:
  "get_time_slot_or_404 s k = Some slot \<Longrightarrow> slot_id slot = k \<and> slot \<in> set (time_slots s)"
  by (auto simp: get_time_slot_or_404_def find_Some_iff)

lemma find_skill_id:
  "get_skill_or_404 s k = Some x \<Longrightarrow> skill_id x = k \<and> x \<in> set (skills s)"
  by (auto simp: get_skill_or_404_def find_Some_iff)

lemma request_user_Some:
  "sessions s (session_key request) = Some u \<Longrightarrow> request_user s request = User u"
  by (simp add: request_user_def)

lemma request_user_None:
  "sessions s (session_key request) = None \<Longrightarrow> request_user s request = AnonymousUser"
  by (simp add: request_user_def)

lemma find_map_flip:
  assumes "find (\<lambda>t. slot_id t = k) ts = Some slot"
  shows "find (\<lambda>t. slot_id t = k)
           (map (\<lambda>t. if slot_id t = k then slot\<lparr>is_available := False\<rparr> else t) ts)
         = Some (slot\<lparr>is_available := False\<rparr>)"
  using assms
proof (induction ts)
  case Nil
  then show ?case by simp
next
  case (Cons a ts)
  then show ?case by (cases "slot_id a = k") (auto simp: find_Some_iff)
qed

lemma reserve_slot_success_state:
  assumes "sessions s (session_key request) = Some u"
      and "get_time_slot_or_404 s k = Some slot"
      and "is_available slot"
  shows "reserve_slot request k s =
           (Redirect ''allo_aide:history'',
            s\<lparr>reservations := reservations s @
                 [\<lparr>reservation_id = fresh_id (map reservation_id (reservations s)),
                   time_slot = k, reservation_user = u\<rparr>],
              time_slots := map (\<lambda>t. if slot_id t = k then slot\<lparr>is_available := False\<rparr> else t)
                              (time_slots s)\<rparr>)"
proof -
  have k: "slot_id slot = k" using assms(2) by (simp add: find_slot_id)
  have u: "request_user s request = User u" using assms(1) by (rule request_user_Some)
  show ?thesis
    using assms(2,3) k u
    by (simp add: reserve_slot_def login_required_def reserve_slot_body_def
        save_new_reservation_def save_time_slot_def)
qed

lemma reserve_slot_conflict_state:
  assumes "sessions s (session_key request) = Some u"
      and "get_time_slot_or_404 s k = Some slot"
      and "\<not> is_available slot"
  shows "reserve_slot request k s =
           (Render ''allo_aide/error.html'' [(''message'', StrV already_reserved_message)], s)"
  using assms
  by (simp add: reserve_slot_def login_required_def reserve_slot_body_def request_user_Some)

lemma reserve_slot_anonymous:
  "sessions s (session_key request) = None \<Longrightarrow> reserve_slot request k s = (RedirectToLogin, s)"
  by (simp add: reserve_slot_def login_required_def request_user_None)

lemma history_anonymous:
  "sessions s (session_key request) = None \<Longrightarrow> history request s = (RedirectToLogin, s)"
  by (simp add: history_def login_required_def request_user_None)

subsection \<open>What each handler leaves unchanged\<close>

lemma home_state: "snd (home request s) = s"
  by (simp add: home_def)

lemma home_user_state: "snd (home_user request s) = s"
  by (simp add: home_user_def split: principal.splits)

lemma find_slots_state: "snd (find_slots request k d s) = s"
  by (simp add: find_slots_def Let_def split: option.splits prod.splits)

lemma history_state: "snd (history request s) = s"
  by (simp add: history_def history_body_def login_required_def split: principal.splits)

lemma login_view_tables:
  "time_slots (snd (login_view F request s)) = time_slots s \<and>
   reservations (snd (login_view F request s)) = reservations s"
  by (simp add: login_view_def login_def split: option.splits prod.splits)

lemma logout_view_tables:
  "time_slots (snd (logout_view request s)) = time_slots s \<and>
   reservations (snd (logout_view request s)) = reservations s"
  by (simp add: logout_view_def logout_def)

lemma create_new_skill_tables:
  "time_slots (snd (create_new_skill F request s)) = time_slots s \<and>
   reservations (snd (create_new_skill F request s)) = reservations s \<and>
   sessions (snd (create_new_skill F request s)) = sessions s"
  by (simp add: create_new_skill_def save_new_skill_def split: option.splits principal.splits)

lemma create_new_request_tables:
  "time_slots (snd (create_new_request F request s)) = time_slots s \<and>
   reservations (snd (create_new_request F request s)) = reservations s \<and>
   sessions (snd (create_new_request F request s)) = sessions s"
  by (simp add: create_new_request_def save_new_help_request_def split: option.splits)

lemma create_new_proposition_tables:
  "reservations (snd (create_new_proposition F request s)) = reservations s \<and>
   sessions (snd (create_new_proposition F request s)) = sessions s"
  by (simp add: create_new_proposition_def save_new_time_slot_def split: option.splits)

lemma reserve_slot_sessions: "sessions (snd (reserve_slot request k s)) = sessions s"
  by (simp add: reserve_slot_def login_required_def reserve_slot_body_def Let_def
      save_new_reservation_def save_time_slot_def split: option.splits principal.splits)

lemma handle_keeps_anonymous:
  assumes "sessions s key = None"
      and "c = LoginView \<longrightarrow> session_key q \<noteq> key"
  shows "sessions (snd (handle F c q s)) key = None"
proof (cases c)
  case LoginView
  with assms(2) have "session_key q \<noteq> key" by simp
  with assms(1) LoginView show ?thesis
    by (simp add: login_view_def login_def split: option.splits prod.splits)
next
  case LogoutView
  with assms(1) show ?thesis by (simp add: logout_view_def logout_def)
qed (simp_all add: assms(1) home_state home_user_state find_slots_state history_state
      create_new_skill_tables create_new_request_tables create_new_proposition_tables
      reserve_slot_sessions)

lemma run_keeps_anonymous:
  assumes "sessions s key = None"
      and "\<forall>(c, q) \<in> set cs. c = LoginView \<longrightarrow> session_key q \<noteq> key"
  shows "sessions (run F cs s) key = None"
  using assms
proof (induction cs arbitrary: s)
  case Nil
  then show ?case by simp
next
  case (Cons a cs)
  obtain c q where a: "a = (c, q)" by (cases a)
  from Cons.prems(2) a have "c = LoginView \<longrightarrow> session_key q \<noteq> key" by simp
  with Cons.prems(1) have "sessions (snd (handle F c q s)) key = None"
    by (rule handle_keeps_anonymous)
  moreover from Cons.prems(2) have "\<forall>(c, q) \<in> set cs. c = LoginView \<longrightarrow> session_key q \<noteq> key"
    by simp
  ultimately show ?case using Cons.IH a by simp
qed

subsection \<open>The strict format is accepted by the parser\<close>









subsection \<open>The parser accepts exactly the admitted strings\<close>
























subsection \<open>Preservation of the reservation invariant\<close>

lemma inv_frame:
  "time_slots s' = time_slots s \<Longrightarrow> reservations s' = reservations s \<Longrightarrow>
   reservation_inv s' = reservation_inv s"
  by (simp add: reservation_inv_def referencing_def)

lemma created_frame: "reservations s' = reservations s \<Longrightarrow> created_available s s'"
  by (simp add: created_available_def)

lemma inv_unavailable_once: "reservation_inv s \<Longrightarrow> unavailable_once s"
  by (simp add: reservation_inv_def unavailable_once_def)

lemma fresh_slot_unreferenced:
  assumes "reservation_inv s"
  shows "referencing s (fresh_id (map slot_id (time_slots s))) = []"
proof -
  have "time_slot r \<noteq> fresh_id (map slot_id (time_slots s))" if "r \<in> set (reservations s)" for r
  proof -
    from assms that obtain t where "t \<in> set (time_slots s)" "slot_id t = time_slot r"
      by (auto simp: reservation_inv_def)
    then have "time_slot r \<in> set (map slot_id (time_slots s))" by force
    then show ?thesis using fresh_id_notin [of "map slot_id (time_slots s)"] by metis
  qed
  then show ?thesis by (simp add: referencing_def filter_empty_conv)
qed

lemma save_new_time_slot_inv:
  assumes "reservation_inv s" and "is_available x"
  shows "reservation_inv (save_new_time_slot x s)"
proof -
  have new: "referencing s (fresh_id (map slot_id (time_slots s))) = []"
    using assms(1) by (rule fresh_slot_unreferenced)
  have ref: "referencing (save_new_time_slot x s) j = referencing s j" for j
    by (simp add: referencing_def save_new_time_slot_def)
  show ?thesis
    using assms new
    by (auto simp: reservation_inv_def ref) (auto simp: save_new_time_slot_def)
qed

lemma create_new_proposition_inv:
  assumes "reservation_inv s" and "creates_available F"
  shows "reservation_inv (snd (create_new_proposition F request s))"
proof (cases "req_method request = ''POST''")
  case False
  with assms(1) show ?thesis by (simp add: create_new_proposition_def)
next
  case True
  show ?thesis
  proof (cases "TimeSlotForm F (POST request)")
    case None
    with True assms(1) show ?thesis by (simp add: create_new_proposition_def)
  next
    case (Some x)
    with assms(2) have "is_available x" by (simp add: creates_available_def)
    with assms(1) have "reservation_inv (save_new_time_slot x s)"
      by (rule save_new_time_slot_inv)
    with True Some show ?thesis by (simp add: create_new_proposition_def)
  qed
qed

lemma reserved_state_inv:
  assumes inv: "reservation_inv s"
      and slot: "slot \<in> set (time_slots s)" "slot_id slot = k" "is_available slot"
  shows "reservation_inv
           (s\<lparr>reservations := reservations s @ [\<lparr>reservation_id = n, time_slot = k, reservation_user = u\<rparr>],
              time_slots := map (\<lambda>t. if slot_id t = k then slot\<lparr>is_available := False\<rparr> else t)
                              (time_slots s)\<rparr>)"
    (is "reservation_inv ?s'")
proof -
  have ref: "referencing ?s' j = referencing s j @
      (if j = k then [\<lparr>reservation_id = n, time_slot = k, reservation_user = u\<rparr>] else [])" for j
    by (auto simp: referencing_def)
  have free: "referencing s k = []"
    using inv slot by (auto simp: reservation_inv_def)
  have count: "length (referencing ?s' (slot_id t')) = (if is_available t' then 0 else 1)"
    if "t' \<in> set (time_slots ?s')" for t'
  proof -
    from that obtain t where t: "t \<in> set (time_slots s)"
      "t' = (if slot_id t = k then slot\<lparr>is_available := False\<rparr> else t)"
      by auto
    show ?thesis
    proof (cases "slot_id t = k")
      case True
      with t slot(2) free show ?thesis by (simp add: ref)
    next
      case False
      with t inv show ?thesis by (simp add: ref reservation_inv_def)
    qed
  qed
  have keep: "\<exists>t' \<in> set (time_slots ?s'). slot_id t' = j" if "\<exists>t \<in> set (time_slots s). slot_id t = j" for j
  proof -
    from that obtain t where t: "t \<in> set (time_slots s)" "slot_id t = j" by blast
    let ?t' = "if slot_id t = k then slot\<lparr>is_available := False\<rparr> else t"
    have "?t' \<in> set (time_slots ?s')" using t(1) by force
    moreover have "slot_id ?t' = j" using t(2) slot(2) by simp
    ultimately show ?thesis by blast
  qed
  have fk: "\<exists>t' \<in> set (time_slots ?s'). slot_id t' = time_slot r" if "r \<in> set (reservations ?s')" for r
  proof (rule keep)
    from that have "r \<in> set (reservations s) \<or> time_slot r = k" by auto
    then show "\<exists>t \<in> set (time_slots s). slot_id t = time_slot r"
      using inv slot(1,2) by (auto simp: reservation_inv_def)
  qed
  show ?thesis
    unfolding reservation_inv_def using count fk by blast
qed

lemma reserve_slot_cases:
  "snd (reserve_slot request k s) = s \<or>
   (\<exists>u slot. sessions s (session_key request) = Some u \<and> get_time_slot_or_404 s k = Some slot \<and>
      is_available slot)"
  by (auto simp: reserve_slot_def login_required_def reserve_slot_body_def request_user_def
      split: option.splits)

lemma reserve_slot_inv:
  assumes "reservation_inv s"
  shows "reservation_inv (snd (reserve_slot request k s))"
  using reserve_slot_cases [of request k s]
proof
  assume "snd (reserve_slot request k s) = s"
  with assms show ?thesis by simp
next
  assume "\<exists>u slot. sessions s (session_key request) = Some u \<and>
      get_time_slot_or_404 s k = Some slot \<and> is_available slot"
  then obtain u slot where h: "sessions s (session_key request) = Some u"
    "get_time_slot_or_404 s k = Some slot" "is_available slot" by blast
  from h(2) have mem: "slot \<in> set (time_slots s)" "slot_id slot = k"
    by (simp_all add: find_slot_id)
  show ?thesis
    using reserved_state_inv [OF assms mem h(3)]
    by (simp add: reserve_slot_success_state [OF h])
qed

lemma reserve_slot_created: "created_available s (snd (reserve_slot request k s))"
  using reserve_slot_cases [of request k s]
proof
  assume "snd (reserve_slot request k s) = s"
  then show ?thesis by (simp add: created_frame)
next
  assume "\<exists>u slot. sessions s (session_key request) = Some u \<and>
      get_time_slot_or_404 s k = Some slot \<and> is_available slot"
  then obtain u slot where h: "sessions s (session_key request) = Some u"
    "get_time_slot_or_404 s k = Some slot" "is_available slot" by blast
  from h(2) have mem: "slot \<in> set (time_slots s)" "slot_id slot = k"
    by (simp_all add: find_slot_id)
  then show ?thesis
    using h(3) by (auto simp: reserve_slot_success_state [OF h] created_available_def)
qed

lemma handle_tables:
  assumes "c \<noteq> CreateNewProposition" and "\<forall>k. c \<noteq> ReserveSlot k"
  shows "time_slots (snd (handle F c request s)) = time_slots s \<and>
         reservations (snd (handle F c request s)) = reservations s"
  using assms
  by (cases c)
     (simp_all add: home_state home_user_state find_slots_state history_state
        login_view_tables logout_view_tables create_new_skill_tables create_new_request_tables)

lemma handle_inv:
  assumes "reservation_inv s" and "creates_available F"
  shows "reservation_inv (snd (handle F c request s))"
proof (cases "c = CreateNewProposition \<or> (\<exists>k. c = ReserveSlot k)")
  case True
  then show ?thesis
    using assms by (auto simp: create_new_proposition_inv reserve_slot_inv)
next
  case False
  then have "time_slots (snd (handle F c request s)) = time_slots s \<and>
         reservations (snd (handle F c request s)) = reservations s"
    by (simp add: handle_tables)
  then have "reservation_inv (snd (handle F c request s)) = reservation_inv s"
    by (intro inv_frame) simp_all
  with assms(1) show ?thesis by simp
qed

lemma handle_created: "created_available s (snd (handle F c request s))"
proof (cases "\<exists>k. c = ReserveSlot k")
  case True
  then show ?thesis by (auto simp: reserve_slot_created)
next
  case False
  show ?thesis
  proof (cases "c = CreateNewProposition")
    case True
    then show ?thesis by (simp add: created_frame create_new_proposition_tables)
  next
    case no: False
    with False show ?thesis by (simp add: created_frame handle_tables)
  qed
qed

lemma run_inv:
  assumes "reservation_inv s" and "creates_available F"
  shows "reservation_inv (run F cs s)"
  using assms(1)
proof (induction cs arbitrary: s)
  case Nil
  then show ?case by simp
next
  case (Cons a cs)
  obtain c q where a: "a = (c, q)" by (cases a)
  from Cons.prems assms(2) have "reservation_inv (snd (handle F c q s))" by (rule handle_inv)
  then have "reservation_inv (run F cs (snd (handle F c q s)))" by (rule Cons.IH)
  with a show ?case by simp
qed

lemma sample_forms_available: "creates_available sample_forms"
  by (auto simp: creates_available_def sample_forms_def split: option.splits)

lemma demo_state_inv: "reservation_inv demo_state"
  by (simp add: reservation_inv_def referencing_def demo_state_def)

subsection \<open>The join of the history page\<close>

lemma joined_row:
  assumes "foreign_keys_ok s" and "r \<in> set (reservations s)"
  shows "\<exists>t x. get_time_slot_or_404 s (time_slot r) = Some t \<and>
               get_skill_or_404 s (slot_skill t) = Some x"
proof -
  from assms have "\<exists>t \<in> set (time_slots s). slot_id t = time_slot r"
    by (simp add: foreign_keys_ok_def)
  then have "get_time_slot_or_404 s (time_slot r) \<noteq> None"
    by (auto simp: get_time_slot_or_404_def find_None_iff)
  then obtain t where t: "get_time_slot_or_404 s (time_slot r) = Some t" by blast
  then have "t \<in> set (time_slots s)" by (simp add: find_slot_id)
  with assms(1) have "\<exists>x \<in> set (skills s). skill_id x = slot_skill t"
    by (simp add: foreign_keys_ok_def)
  then have "get_skill_or_404 s (slot_skill t) \<noteq> None"
    by (auto simp: get_skill_or_404_def find_None_iff)
  with t show ?thesis by blast
qed

lemma select_related_rows:
  assumes "foreign_keys_ok s" and "set rs \<subseteq> set (reservations s)"
  shows "map fst (select_related s rs) = rs"
  using assms(2)
proof (induction rs)
  case Nil
  then show ?case by (simp add: select_related_def map_filter_simps)
next
  case (Cons r rs)
  then have "r \<in> set (reservations s)" by simp
  with assms(1) obtain t x where "get_time_slot_or_404 s (time_slot r) = Some t"
    "get_skill_or_404 s (slot_skill t) = Some x"
    using joined_row by blast
  moreover from Cons have "map fst (select_related s rs) = rs" by simp
  ultimately show ?case by (simp add: select_related_def map_filter_simps)
qed

lemma select_related_joined:
  "(r, t, x) \<in> set (select_related s rs) \<Longrightarrow>
   r \<in> set rs \<and> get_time_slot_or_404 s (time_slot r) = Some t \<and>
   get_skill_or_404 s (slot_skill t) = Some x"
proof (induction rs)
  case Nil
  then show ?case by (simp add: select_related_def map_filter_simps)
next
  case (Cons a rs)
  then show ?case
    by (auto simp: select_related_def map_filter_simps split: option.splits)
qed

lemma demo_state_keys: "foreign_keys_ok demo_state"
  by (simp add: foreign_keys_ok_def demo_state_def)

subsection \<open>Owners of created records\<close>

lemma create_new_skill_owner:
  assumes "req_method request = ''POST''" and "SkillForm F (POST request) = Some x"
      and "sessions s (session_key request) = Some u"
  shows "create_new_skill F request s =
           (Redirect ''allo_aide:home_user'',
            s\<lparr>skills := skills s @
               [x\<lparr>skill_user := u, skill_id := fresh_id (map skill_id (skills s))\<rparr>]\<rparr>)"
  using assms by (simp add: create_new_skill_def request_user_def save_new_skill_def)

lemma create_new_proposition_owner:
  assumes "req_method request = ''POST''" and "TimeSlotForm F (POST request) = Some x"
  shows "create_new_proposition F request s =
           (Redirect ''allo_aide:home_user'',
            s\<lparr>time_slots := time_slots s @
               [x\<lparr>slot_id := fresh_id (map slot_id (time_slots s))\<rparr>]\<rparr>)"
  using assms by (simp add: create_new_proposition_def save_new_time_slot_def)

lemma reserve_slot_second_attempt:
  assumes "sessions s (session_key request) = Some u"
      and "get_time_slot_or_404 s k = Some slot"
      and "is_available slot"
      and "sessions s (session_key request') = Some u'"
  shows "reserve_slot request' k (snd (reserve_slot request k s)) =
           (Render ''allo_aide/error.html'' [(''message'', StrV already_reserved_message)],
            snd (reserve_slot request k s))"
proof -
  let ?s1 = "snd (reserve_slot request k s)"
  have auth: "sessions ?s1 (session_key request') = Some u'"
    using assms(4) by (simp add: reserve_slot_sessions)
  have "find (\<lambda>t. slot_id t = k) (time_slots s) = Some slot"
    using assms(2) by (simp add: get_time_slot_or_404_def)
  then have found: "get_time_slot_or_404 ?s1 k = Some (slot\<lparr>is_available := False\<rparr>)"
    by (simp add: reserve_slot_success_state [OF assms(1-3)] get_time_slot_or_404_def
        find_map_flip)
  have "\<not> is_available (slot\<lparr>is_available := False\<rparr>)" by simp
  with auth found show ?thesis by (rule reserve_slot_conflict_state)
qed

section \<open>Reserving a slot\<close>

text \<open>
  Claim C1.  An authenticated \<^verbatim>\<open>reserve_slot\<close> request that names a stored slot whose
  \<^verbatim>\<open>is_available\<close> is true answers with a redirect to the history view and leaves
  the state with exactly one more reservation, which links the slot to the current
  user under a primary key not used before; the slot is now stored with
  \<^verbatim>\<open>is_available\<close> false; nothing else changes.
\<close>

theorem reserve_slot_available:
  assumes "sessions s (session_key request) = Some u"
      and "get_time_slot_or_404 s k = Some slot"
      and "is_available slot"
  shows "reserve_slot request k s =
           (Redirect ''allo_aide:history'',
            s\<lparr>reservations := reservations s @
                 [\<lparr>reservation_id = fresh_id (map reservation_id (reservations s)),
                   time_slot = k, reservation_user = u\<rparr>],
              time_slots := map (\<lambda>t. if slot_id t = k then slot\<lparr>is_available := False\<rparr> else t)
                              (time_slots s)\<rparr>) \<and>
         fresh_id (map reservation_id (reservations s)) \<notin> set (map reservation_id (reservations s)) \<and>
         length (reservations (snd (reserve_slot request k s))) = Suc (length (reservations s)) \<and>
         get_time_slot_or_404 (snd (reserve_slot request k s)) k =
           Some (slot\<lparr>is_available := False\<rparr>)"
proof -
  note eq = reserve_slot_success_state [OF assms]
  have "find (\<lambda>t. slot_id t = k) (time_slots s) = Some slot"
    using assms(2) by (simp add: get_time_slot_or_404_def)
  then have flipped: "get_time_slot_or_404 (snd (reserve_slot request k s)) k =
      Some (slot\<lparr>is_available := False\<rparr>)"
    by (simp add: eq get_time_slot_or_404_def find_map_flip)
  have len: "length (reservations (snd (reserve_slot request k s))) = Suc (length (reservations s))"
    by (simp add: eq)
  show ?thesis using eq fresh_id_notin flipped len by blast
qed

theorem reserve_slot_available_witness:
  "sessions demo_state (session_key demo_request) = Some 2 \<and>
   get_time_slot_or_404 demo_state 1 =
     Some \<lparr>slot_id = 1, slot_user = 1, slot_skill = 1,
           slot_date = \<lparr>year = 2024, month = 1, day = 5\<rparr>, is_available = True\<rparr> \<and>
   fst (reserve_slot demo_request 1 demo_state) = Redirect ''allo_aide:history'' \<and>
   reservations (snd (reserve_slot demo_request 1 demo_state)) =
     [\<lparr>reservation_id = 1, time_slot = 2, reservation_user = 2\<rparr>,
      \<lparr>reservation_id = 2, time_slot = 1, reservation_user = 2\<rparr>] \<and>
   map is_available (time_slots (snd (reserve_slot demo_request 1 demo_state))) = [False, False]"
proof -
  have a: "sessions demo_state (session_key demo_request) = Some 2"
    by (simp add: demo_state_def demo_request_def)
  have b: "get_time_slot_or_404 demo_state 1 =
     Some \<lparr>slot_id = 1, slot_user = 1, slot_skill = 1,
           slot_date = \<lparr>year = 2024, month = 1, day = 5\<rparr>, is_available = True\<rparr>"
    by (simp add: demo_state_def get_time_slot_or_404_def)
  have c: "is_available \<lparr>slot_id = 1, slot_user = 1, slot_skill = 1,
           slot_date = \<lparr>year = 2024, month = 1, day = 5\<rparr>, is_available = True\<rparr>"
    by simp
  have d: "fresh_id (map reservation_id (reservations demo_state)) = 2"
    by (simp add: demo_state_def fresh_id_def)
  show ?thesis
    using reserve_slot_available [OF a b c] a b d
    by (simp add: demo_state_def)
qed

text \<open>
  Claim C2.  An authenticated \<^verbatim>\<open>reserve_slot\<close> request that names a stored slot whose
  \<^verbatim>\<open>is_available\<close> is false renders the error page with the message
  \<^verbatim>\<open>Ce cr\'eneau est d\'ej\`a r\'eserv\'e.\<close> (28 characters, so not empty) and returns
  the state it was given: no reservation is created and nothing stored changes.
\<close>

theorem reserve_slot_unavailable:
  assumes "sessions s (session_key request) = Some u"
      and "get_time_slot_or_404 s k = Some slot"
      and "\<not> is_available slot"
  shows "reserve_slot request k s =
           (Render ''allo_aide/error.html'' [(''message'', StrV already_reserved_message)], s) \<and>
         length already_reserved_message = 28"
  using reserve_slot_conflict_state [OF assms]
  by (simp add: already_reserved_message_def)

theorem reserve_slot_unavailable_witness:
  "sessions demo_state (session_key demo_request) = Some 2 \<and>
   get_time_slot_or_404 demo_state 2 =
     Some \<lparr>slot_id = 2, slot_user = 1, slot_skill = 1,
           slot_date = \<lparr>year = 2024, month = 1, day = 5\<rparr>, is_available = False\<rparr> \<and>
   reserve_slot demo_request 2 demo_state =
     (Render ''allo_aide/error.html'' [(''message'', StrV already_reserved_message)], demo_state)"
proof -
  have a: "sessions demo_state (session_key demo_request) = Some 2"
    by (simp add: demo_state_def demo_request_def)
  have b: "get_time_slot_or_404 demo_state 2 =
     Some \<lparr>slot_id = 2, slot_user = 1, slot_skill = 1,
           slot_date = \<lparr>year = 2024, month = 1, day = 5\<rparr>, is_available = False\<rparr>"
    by (simp add: demo_state_def get_time_slot_or_404_def)
  have c: "\<not> is_available \<lparr>slot_id = 2, slot_user = 1, slot_skill = 1,
           slot_date = \<lparr>year = 2024, month = 1, day = 5\<rparr>, is_available = False\<rparr>"
    by simp
  show ?thesis
    using reserve_slot_unavailable [OF a b c] a b by simp
qed

section \<open>The reservation invariant\<close>

text \<open>
  The invariant of claim C3, as it is worded, is not kept: started in a state where
  every unavailable slot has exactly one reservation, but where the available slot 1
  already has a reservation, \<^verbatim>\<open>reserve_slot\<close> leaves slot 1 unavailable with two
  reservations.
\<close>

theorem unavailable_once_counterexample:
  "unavailable_once stale_state \<and>
   \<not> unavailable_once (run sample_forms [(ReserveSlot 1, demo_request)] stale_state)"
  by (simp add: unavailable_once_def referencing_def stale_state_def demo_state_def
      demo_request_def reserve_slot_def login_required_def reserve_slot_body_def
      request_user_def get_time_slot_or_404_def save_new_reservation_def save_time_slot_def
      fresh_id_def)

text \<open>
  Claim C3, amended.  Start in a state where every slot has no reservation while it
  is available and exactly one when it is not, and where every reservation refers to
  a stored slot; let the time-slot form only yield available slots.  Then after any
  sequence of requests to the ten handlers the same holds, so every unavailable slot
  has exactly one reservation; and any single request, from any state, keeps the
  stored reservations and only adds reservations whose slot was stored and available
  when the request arrived.
\<close>

theorem reservation_inv_reachable:
  assumes "reservation_inv s" and "creates_available F"
  shows "reservation_inv (run F cs s) \<and> unavailable_once (run F cs s) \<and>
         created_available s0 (snd (handle F c request s0))"
proof -
  have "reservation_inv (run F cs s)" using assms by (rule run_inv)
  then show ?thesis by (simp add: inv_unavailable_once handle_created)
qed

theorem reservation_inv_reachable_witness:
  "reservation_inv demo_state \<and> creates_available sample_forms \<and>
   reservation_inv (run sample_forms demo_calls demo_state) \<and>
   unavailable_once (run sample_forms demo_calls demo_state) \<and>
   created_available demo_state (snd (handle sample_forms (ReserveSlot 1) demo_request demo_state)) \<and>
   reservations (run sample_forms demo_calls demo_state) =
     [\<lparr>reservation_id = 1, time_slot = 2, reservation_user = 2\<rparr>,
      \<lparr>reservation_id = 2, time_slot = 1, reservation_user = 1\<rparr>] \<and>
   map (\<lambda>t. (slot_id t, is_available t)) (time_slots (run sample_forms demo_calls demo_state)) =
     [(1, False), (2, False), (3, True)]"
proof -
  have a: "reservations (run sample_forms demo_calls demo_state) =
     [\<lparr>reservation_id = 1, time_slot = 2, reservation_user = 2\<rparr>,
      \<lparr>reservation_id = 2, time_slot = 1, reservation_user = 1\<rparr>]"
    by code_simp
  have b: "map (\<lambda>t. (slot_id t, is_available t))
      (time_slots (run sample_forms demo_calls demo_state)) = [(1, False), (2, False), (3, True)]"
    by code_simp
  show ?thesis
    using reservation_inv_reachable [OF demo_state_inv sample_forms_available,
        of demo_calls demo_state "ReserveSlot 1" demo_request]
      demo_state_inv sample_forms_available a b
    by simp
qed

section \<open>Owners of created records\<close>

text \<open>
  Claim C4.  \<^verbatim>\<open>create_new_skill\<close> assigns \<^verbatim>\<open>request.user\<close> to the new skill
  (lemma \<open>create_new_skill_owner\<close>), but \<^verbatim>\<open>create_new_proposition\<close> saves the
  form's instance as it is (lemma \<open>create_new_proposition_owner\<close>).  Here user 2
  posts a time slot that names user 1 as owner: the stored slot belongs to user 1,
  not to the requesting user 2.
\<close>

theorem create_new_proposition_owner_from_form:
  "request_user demo_state proposition_request = User 2 \<and>
   fst (create_new_proposition sample_forms proposition_request demo_state) =
     Redirect ''allo_aide:home_user'' \<and>
   time_slots (snd (create_new_proposition sample_forms proposition_request demo_state)) =
     time_slots demo_state @
     [\<lparr>slot_id = 3, slot_user = 1, slot_skill = 1,
       slot_date = \<lparr>year = 2024, month = 1, day = 6\<rparr>, is_available = True\<rparr>]"
  by code_simp

section \<open>Finding slots\<close>




section \<open>Missing objects\<close>

text \<open>
  Claim C6 as worded fails for a caller who is not logged in: the decorator answers
  first, with the redirect to the login view, whether the slot exists or not.
\<close>

theorem reserve_slot_missing_counterexample:
  "99 \<notin> set (map slot_id (time_slots demo_state)) \<and>
   fst (reserve_slot anonymous_request 99 demo_state) = RedirectToLogin \<and>
   fst (reserve_slot anonymous_request 99 demo_state) \<noteq> Http404"
  by (simp add: reserve_slot_def login_required_def request_user_def demo_state_def
      anonymous_request_def)

text \<open>
  Claim C6, amended.  An authenticated \<^verbatim>\<open>reserve_slot\<close> request whose slot
  identifier names no stored slot gets the not-found response and leaves the state
  unchanged; an unauthenticated one is redirected to the login view, with the state
  unchanged; and \<^verbatim>\<open>find_slots\<close> answers not-found, with the state unchanged, when
  its skill identifier names no stored skill.
\<close>

theorem missing_object_not_found:
  "(sessions s (session_key request) = Some u \<longrightarrow> k \<notin> set (map slot_id (time_slots s)) \<longrightarrow>
      reserve_slot request k s = (Http404, s)) \<and>
   (sessions s (session_key request) = None \<longrightarrow> reserve_slot request k s = (RedirectToLogin, s)) \<and>
   (k' \<notin> set (map skill_id (skills s)) \<longrightarrow> find_slots request k' d s = (Http404, s))"
proof -
  have a: "k \<notin> set (map slot_id (time_slots s)) \<Longrightarrow> get_time_slot_or_404 s k = None"
    by (auto simp: get_time_slot_or_404_def find_None_iff)
  have b: "k' \<notin> set (map skill_id (skills s)) \<Longrightarrow> get_skill_or_404 s k' = None"
    by (auto simp: get_skill_or_404_def find_None_iff)
  show ?thesis
    by (simp add: a b reserve_slot_def login_required_def reserve_slot_body_def
        request_user_def find_slots_def)
qed

theorem missing_object_not_found_witness:
  "sessions demo_state (session_key demo_request) = Some 2 \<and>
   sessions demo_state (session_key anonymous_request) = None \<and>
   99 \<notin> set (map slot_id (time_slots demo_state)) \<and>
   99 \<notin> set (map skill_id (skills demo_state)) \<and>
   reserve_slot demo_request 99 demo_state = (Http404, demo_state) \<and>
   reserve_slot anonymous_request 99 demo_state = (RedirectToLogin, demo_state) \<and>
   find_slots anonymous_request 99 ''2024-01-05'' demo_state = (Http404, demo_state)"
proof -
  have a: "sessions demo_state (session_key demo_request) = Some 2"
    by (simp add: demo_state_def demo_request_def)
  have b: "sessions demo_state (session_key anonymous_request) = None"
    by (simp add: demo_state_def anonymous_request_def)
  have c: "99 \<notin> set (map slot_id (time_slots demo_state))"
    by (simp add: demo_state_def)
  have d: "99 \<notin> set (map skill_id (skills demo_state))"
    by (simp add: demo_state_def)
  show ?thesis
    using missing_object_not_found [of demo_state demo_request 2 99 99 "''2024-01-05''"]
      missing_object_not_found [of demo_state anonymous_request 2 99 99 "''2024-01-05''"]
      a b c d
    by simp
qed

section \<open>Logging out\<close>

text \<open>
  Claim C7.  \<^verbatim>\<open>logout_view\<close> always ends the session and redirects to the public
  home page.  From then on, whatever requests are handled in between, as long as no
  login comes from that session, a request of that session to \<^verbatim>\<open>reserve_slot\<close> or
  to \<^verbatim>\<open>history\<close> is redirected to the login view and leaves the state as it is.
\<close>

theorem logout_then_protected:
  assumes "session_key request' = session_key request"
      and "no_login_from (session_key request) cs"
  shows "logout_view request s = (Redirect ''allo_aide:home'', logout request s) \<and>
         request_user (logout request s) request' = AnonymousUser \<and>
         reserve_slot request' k (run F cs (logout request s)) =
           (RedirectToLogin, run F cs (logout request s)) \<and>
         history request' (run F cs (logout request s)) =
           (RedirectToLogin, run F cs (logout request s))"
proof -
  have out: "sessions (logout request s) (session_key request) = None"
    by (simp add: logout_def)
  have "\<forall>(c, q) \<in> set cs. c = LoginView \<longrightarrow> session_key q \<noteq> session_key request"
    using assms(2) by (simp add: no_login_from_def)
  with out have "sessions (run F cs (logout request s)) (session_key request) = None"
    by (rule run_keeps_anonymous)
  then have later: "sessions (run F cs (logout request s)) (session_key request') = None"
    using assms(1) by simp
  show ?thesis
    using out later assms(1)
    by (simp add: logout_view_def reserve_slot_anonymous history_anonymous request_user_None)
qed

theorem logout_then_protected_witness:
  "session_key history_request = session_key demo_request \<and>
   no_login_from (session_key demo_request) demo_calls \<and>
   request_user demo_state demo_request = User 2 \<and>
   logout_view demo_request demo_state = (Redirect ''allo_aide:home'', logout demo_request demo_state) \<and>
   fst (reserve_slot history_request 1 (run sample_forms demo_calls (logout demo_request demo_state))) =
     RedirectToLogin \<and>
   fst (history history_request (run sample_forms demo_calls (logout demo_request demo_state))) =
     RedirectToLogin"
proof -
  have a: "session_key history_request = session_key demo_request"
    by (simp add: history_request_def demo_request_def)
  have b: "no_login_from (session_key demo_request) demo_calls"
    by (simp add: no_login_from_def demo_calls_def demo_request_def alice_login_def)
  have c: "request_user demo_state demo_request = User 2"
    by (simp add: request_user_def demo_state_def demo_request_def)
  show ?thesis
    using logout_then_protected [OF a b, of demo_state 1 sample_forms] a b c by simp
qed

section \<open>The history page\<close>

text \<open>
  Claim C8.  For an authenticated \<^verbatim>\<open>history\<close> request, in a database whose foreign
  keys refer to stored rows, the page lists exactly the reservations of the current
  user, in stored order, each with the slot it refers to and that slot's skill; the
  list is empty when the user has no reservation; the state is unchanged.
\<close>

theorem history_own_reservations:
  assumes "sessions s (session_key request) = Some u" and "foreign_keys_ok s"
  shows "history request s =
           (Render ''allo_aide/history.html''
              [(''reservations'',
                ReservationList
                  (select_related s (filter (\<lambda>r. reservation_user r = u) (reservations s))))], s) \<and>
         map fst (select_related s (filter (\<lambda>r. reservation_user r = u) (reservations s))) =
           filter (\<lambda>r. reservation_user r = u) (reservations s) \<and>
         (\<forall>(r, t, x) \<in> set (select_related s (filter (\<lambda>r. reservation_user r = u) (reservations s))).
            reservation_user r = u \<and> r \<in> set (reservations s) \<and>
            t \<in> set (time_slots s) \<and> slot_id t = time_slot r \<and>
            x \<in> set (skills s) \<and> skill_id x = slot_skill t) \<and>
         (filter (\<lambda>r. reservation_user r = u) (reservations s) = [] \<longrightarrow>
            select_related s (filter (\<lambda>r. reservation_user r = u) (reservations s)) = [])"
proof -
  let ?mine = "filter (\<lambda>r. reservation_user r = u) (reservations s)"
  have resp: "history request s =
      (Render ''allo_aide/history.html'' [(''reservations'', ReservationList (select_related s ?mine))], s)"
    using assms(1)
    by (simp add: history_def login_required_def history_body_def request_user_def)
  have rows: "map fst (select_related s ?mine) = ?mine"
    using assms(2) by (rule select_related_rows) auto
  have joined: "\<forall>(r, t, x) \<in> set (select_related s ?mine).
      reservation_user r = u \<and> r \<in> set (reservations s) \<and>
      t \<in> set (time_slots s) \<and> slot_id t = time_slot r \<and>
      x \<in> set (skills s) \<and> skill_id x = slot_skill t"
  proof (clarify)
    fix r t x
    assume "(r, t, x) \<in> set (select_related s ?mine)"
    from select_related_joined [OF this]
    show "reservation_user r = u \<and> r \<in> set (reservations s) \<and>
      t \<in> set (time_slots s) \<and> slot_id t = time_slot r \<and>
      x \<in> set (skills s) \<and> skill_id x = slot_skill t"
      by (auto dest: find_slot_id find_skill_id)
  qed
  have empty: "?mine = [] \<longrightarrow> select_related s ?mine = []"
    by (simp add: select_related_def map_filter_simps)
  show ?thesis using resp rows joined empty by blast
qed

theorem history_own_reservations_witness:
  "sessions demo_state (session_key demo_request) = Some 2 \<and> foreign_keys_ok demo_state \<and>
   history demo_request demo_state =
     (Render ''allo_aide/history.html''
        [(''reservations'',
          ReservationList
            [(\<lparr>reservation_id = 1, time_slot = 2, reservation_user = 2\<rparr>,
              \<lparr>slot_id = 2, slot_user = 1, slot_skill = 1,
                slot_date = \<lparr>year = 2024, month = 1, day = 5\<rparr>, is_available = False\<rparr>,
              \<lparr>skill_id = 1, skill_user = 1, skill_name = ''piano''\<rparr>)])], demo_state)"
proof -
  have a: "sessions demo_state (session_key demo_request) = Some 2"
    by (simp add: demo_state_def demo_request_def)
  have b: "select_related demo_state (filter (\<lambda>r. reservation_user r = 2) (reservations demo_state)) =
      [(\<lparr>reservation_id = 1, time_slot = 2, reservation_user = 2\<rparr>,
              \<lparr>slot_id = 2, slot_user = 1, slot_skill = 1,
                slot_date = \<lparr>year = 2024, month = 1, day = 5\<rparr>, is_available = False\<rparr>,
              \<lparr>skill_id = 1, skill_user = 1, skill_name = ''piano''\<rparr>)]"
    by (simp add: select_related_def map_filter_simps get_time_slot_or_404_def
        get_skill_or_404_def demo_state_def)
  show ?thesis
    using history_own_reservations [OF a demo_state_keys] a demo_state_keys b by simp
qed

section \<open>The public home page\<close>

text \<open>
  Claim C9.  \<^verbatim>\<open>home\<close> answers every request, logged in or not, with the home page
  whose context holds all stored skills and exactly the stored slots whose
  \<^verbatim>\<open>is_available\<close> is true, and leaves the state unchanged.
\<close>

theorem home_context:
  "home request s =
     (Render ''allo_aide/home.html''
        [(''skills'', SkillList (skills s)),
         (''timeslots'', TimeSlotList (filter is_available (time_slots s)))], s) \<and>
   set (filter is_available (time_slots s)) = {t \<in> set (time_slots s). is_available t}"
  by (simp add: home_def)

theorem home_context_witness:
  "home anonymous_request demo_state =
     (Render ''allo_aide/home.html''
        [(''skills'', SkillList [\<lparr>skill_id = 1, skill_user = 1, skill_name = ''piano''\<rparr>]),
         (''timeslots'',
          TimeSlotList [\<lparr>slot_id = 1, slot_user = 1, slot_skill = 1,
            slot_date = \<lparr>year = 2024, month = 1, day = 5\<rparr>, is_available = True\<rparr>])],
      demo_state)"
proof -
  have "skills demo_state = [\<lparr>skill_id = 1, skill_user = 1, skill_name = ''piano''\<rparr>]"
    by (simp add: demo_state_def)
  moreover have "filter is_available (time_slots demo_state) =
      [\<lparr>slot_id = 1, slot_user = 1, slot_skill = 1,
        slot_date = \<lparr>year = 2024, month = 1, day = 5\<rparr>, is_available = True\<rparr>]"
    by (simp add: demo_state_def)
  ultimately show ?thesis
    using home_context [of anonymous_request demo_state] by simp
qed

section \<open>Request methods\<close>

text \<open>
  Claim C10.  \<^verbatim>\<open>reserve_slot\<close> never looks at the request method: whatever the
  method, an authenticated request for a stored, available slot creates the
  reservation and makes the slot unavailable.  The three creation handlers, on any
  method other than POST, render their empty form and leave the state unchanged.
\<close>

theorem method_dependence:
  "(sessions s (session_key request) = Some u \<longrightarrow> get_time_slot_or_404 s k = Some slot \<longrightarrow>
      is_available slot \<longrightarrow>
      reserve_slot (request\<lparr>req_method := m\<rparr>) k s =
        (Redirect ''allo_aide:history'',
         s\<lparr>reservations := reservations s @
              [\<lparr>reservation_id = fresh_id (map reservation_id (reservations s)),
                time_slot = k, reservation_user = u\<rparr>],
           time_slots := map (\<lambda>t. if slot_id t = k then slot\<lparr>is_available := False\<rparr> else t)
                           (time_slots s)\<rparr>)) \<and>
   (req_method request \<noteq> ''POST'' \<longrightarrow>
      create_new_skill F request s =
        (Render ''allo_aide/create_new_skill.html'' [(''form'', FormV None)], s) \<and>
      create_new_request F request s =
        (Render ''allo_aide/create_new_demande.html'' [(''form'', FormV None)], s) \<and>
      create_new_proposition F request s =
        (Render ''allo_aide/create_new_proposition.html'' [(''form'', FormV None)], s))"
proof -
  have "reserve_slot (request\<lparr>req_method := m\<rparr>) k s =
        (Redirect ''allo_aide:history'',
         s\<lparr>reservations := reservations s @
              [\<lparr>reservation_id = fresh_id (map reservation_id (reservations s)),
                time_slot = k, reservation_user = u\<rparr>],
           time_slots := map (\<lambda>t. if slot_id t = k then slot\<lparr>is_available := False\<rparr> else t)
                           (time_slots s)\<rparr>)"
    if "sessions s (session_key request) = Some u" "get_time_slot_or_404 s k = Some slot"
      "is_available slot"
    using reserve_slot_success_state [of s "request\<lparr>req_method := m\<rparr>" u k slot] that
    by simp
  then show ?thesis
    by (simp add: create_new_skill_def create_new_request_def create_new_proposition_def)
qed

theorem method_dependence_witness:
  "req_method demo_request \<noteq> ''POST'' \<and>
   fst (reserve_slot (demo_request\<lparr>req_method := ''GET''\<rparr>) 1 demo_state) =
     Redirect ''allo_aide:history'' \<and>
   reservations (snd (reserve_slot (demo_request\<lparr>req_method := ''GET''\<rparr>) 1 demo_state)) =
     [\<lparr>reservation_id = 1, time_slot = 2, reservation_user = 2\<rparr>,
      \<lparr>reservation_id = 2, time_slot = 1, reservation_user = 2\<rparr>] \<and>
   map is_available
     (time_slots (snd (reserve_slot (demo_request\<lparr>req_method := ''GET''\<rparr>) 1 demo_state))) =
     [False, False] \<and>
   create_new_skill sample_forms demo_request demo_state =
     (Render ''allo_aide/create_new_skill.html'' [(''form'', FormV None)], demo_state) \<and>
   create_new_request sample_forms demo_request demo_state =
     (Render ''allo_aide/create_new_demande.html'' [(''form'', FormV None)], demo_state) \<and>
   create_new_proposition sample_forms demo_request demo_state =
     (Render ''allo_aide/create_new_proposition.html'' [(''form'', FormV None)], demo_state)"
proof -
  have a: "sessions demo_state (session_key demo_request) = Some 2"
    by (simp add: demo_state_def demo_request_def)
  have b: "get_time_slot_or_404 demo_state 1 =
     Some \<lparr>slot_id = 1, slot_user = 1, slot_skill = 1,
           slot_date = \<lparr>year = 2024, month = 1, day = 5\<rparr>, is_available = True\<rparr>"
    by (simp add: demo_state_def get_time_slot_or_404_def)
  have c: "req_method demo_request \<noteq> ''POST''"
    by (simp add: demo_request_def)
  have d: "fresh_id (map reservation_id (reservations demo_state)) = 2"
    by (simp add: demo_state_def fresh_id_def)
  show ?thesis
    using method_dependence [of demo_state demo_request 2 1
        "\<lparr>slot_id = 1, slot_user = 1, slot_skill = 1,
           slot_date = \<lparr>year = 2024, month = 1, day = 5\<rparr>, is_available = True\<rparr>"
        "''GET''" sample_forms] a b c d
    by (simp add: demo_state_def)
qed

end
